theory Spec2Isabelle
  imports
    Main
    "HOL-Library.Word"
    "HOL-Library.FSet"
    "HOL-Library.Finite_Map"
    "HOL-Library.Char_ord"
    "HOL-Library.List_Lexorder"
begin

unbundle bit_operations_syntax

section \<open>Errors (overlay.go)\<close>

text \<open>
  An error of the underlying filesystem is kept abstract: all the overlay ever asks of it
  is how \<^verbatim>\<open>os.IsNotExist\<close>, \<^verbatim>\<open>os.IsExist\<close> and \<^verbatim>\<open>os.IsPermission\<close> classify it. The
  number distinguishes errors of the same class.
\<close>

datatype oskind = NotExist | Exist | Permission | OtherKind

datatype oserr = OsErr oskind nat

fun IsNotExist :: "oserr \<Rightarrow> bool" where
  "IsNotExist (OsErr k _) = (k = NotExist)"

fun IsExist :: "oserr \<Rightarrow> bool" where
  "IsExist (OsErr k _) = (k = Exist)"

fun IsPermission :: "oserr \<Rightarrow> bool" where
  "IsPermission (OsErr k _) = (k = Permission)"

text \<open>
  What a method hands to the protocol layer: one of the \<^verbatim>\<open>fuse.Errno\<close> values the code
  names, or an error of the underlying filesystem passed through as it is.
\<close>

datatype error = ENOENT | EEXIST | EPERM | ENOTSUP | ENODATA | EIO | Raw oserr

text \<open>
  \<^verbatim>\<open>translateError\<close>. \<open>translateErr\<close> is its switch on an error that is not \<^verbatim>\<open>nil\<close>;
  \<^verbatim>\<open>nil\<close> (\<open>None\<close>) matches none of the three cases and is returned by the default.
\<close>

definition translateErr :: "oserr \<Rightarrow> error" where
  "translateErr e =
     (if IsNotExist e then ENOENT
      else if IsExist e then EEXIST
      else if IsPermission e then EPERM
      else Raw e)"

fun translateError :: "oserr option \<Rightarrow> error option" where
  "translateError None = None"
| "translateError (Some e) = Some (translateErr e)"

section \<open>Data model (filesystem.go, node and handle sources)\<close>

type_synonym u32 = "32 word"
type_synonym u64 = "64 word"
type_synonym bytes = "8 word list"

text \<open>
  The inner map \<^verbatim>\<open>map[string][]byte\<close> of one path. It is finite, and \<^verbatim>\<open>Listxattr\<close> ranges
  over its keys, so it is a finite map.
\<close>

type_synonym xattr_map = "(string, bytes) fmap"

text \<open>
  \<^verbatim>\<open>type Node struct\<close>. The locks are left out: the model runs one method at a time.
  \<^verbatim>\<open>flushers\<close> is a \<^verbatim>\<open>map[*Handle]bool\<close> that only ever stores \<^verbatim>\<open>true\<close>, that is a set of
  handle addresses; a \<^verbatim>\<open>nil\<close> map and an empty one behave alike in every method.
  The back pointer \<^verbatim>\<open>fs\<close> is left out, there being one \<^verbatim>\<open>FS\<close>.
\<close>

record Node =
  realPath :: string
  isDir :: bool
  flushers :: "nat set"

text \<open>
  \<^verbatim>\<open>type FS struct\<close>, the fields filesystem.go declares. A missing key of \<^verbatim>\<open>xattrs\<close> and a
  key bound to a \<^verbatim>\<open>nil\<close> inner map are both \<open>None\<close>: every read of \<^verbatim>\<open>f.xattrs[p]\<close> in the
  sources compares the result with \<^verbatim>\<open>nil\<close> and nothing ranges over the outer map. The
  registry \<^verbatim>\<open>nodes\<close> keeps the difference between a missing key and an empty slice, which
  \<^verbatim>\<open>forgetNode\<close> tests. Node pointers are addresses into the object store below.
\<close>

record FS_declared =
  rootPath :: string
  xattrs :: "string \<rightharpoonup> xattr_map"
  nodes :: "string \<rightharpoonup> nat list"
  latency :: int

text \<open>
  Modelled from the spec: the field \<^verbatim>\<open>inMemoryXattr\<close> of \<^verbatim>\<open>FS\<close>, which the four xattr
  methods of \<^verbatim>\<open>Node\<close> read as \<^verbatim>\<open>n.fs.inMemoryXattr\<close> and whose declaration is missing from
  filesystem.go: ``a flag enabling/disabling in-memory extended-attribute emulation''.
\<close>

record FS = FS_declared +
  inMemoryXattr :: bool

text \<open>
  \<^verbatim>\<open>NewFS\<close>. Its one parameter is the latency. The composite literal names the four
  declared fields; a field it does not name keeps Go's zero value, \<^verbatim>\<open>false\<close> for a
  \<^verbatim>\<open>bool\<close>.
\<close>

definition NewFS :: "int \<Rightarrow> FS" where
  "NewFS l = \<lparr>rootPath = ''.'', xattrs = Map.empty, nodes = Map.empty,
              latency = l, inMemoryXattr = False\<rparr>"

subsection \<open>The underlying filesystem\<close>

text \<open>
  What \<^verbatim>\<open>os.Stat\<close> reports of a file, as far as the sources read it: the name, the
  \<^verbatim>\<open>os.FileMode\<close> (a \<^verbatim>\<open>uint32\<close>: type bits on top, permission bits in the low nine),
  and inode, owner and group of the \<^verbatim>\<open>syscall.Stat_t\<close>.
\<close>

record FileInfo =
  fi_name :: string
  fi_mode :: u32
  fi_ino :: u64
  fi_uid :: u32
  fi_gid :: u32

datatype setattr_flag =
  VMode | VUid | VGid | VSize | VAtime | VMtime | VHandle | VOther nat

text \<open>
  \<^verbatim>\<open>fuse.SetattrRequest\<close>; \<^verbatim>\<open>Valid\<close> is the set of bits that \<^verbatim>\<open>req.Valid.Size()\<close>,
  \<^verbatim>\<open>req.Valid.Mtime()\<close> and the like test. Times are kept as integers.
\<close>

record SetattrRequest =
  Valid :: "setattr_flag set"
  Size :: u64
  Atime :: int
  Mtime :: int
  Mode :: u32
  Uid :: u32
  Gid :: u32

text \<open>
  Every call the modelled methods make on the underlying filesystem or on an open file.
  An open \<^verbatim>\<open>*os.File\<close> is a descriptor number, \<open>None\<close> for a \<^verbatim>\<open>nil\<close> file.
\<close>

datatype call =
    CStat string
  | CRename string string
  | CRemove string
  | CMkdir string u32
  | CTruncate string u64
  | CChmod string u32
  | CChown string u32 u32
  | CSync "nat option"
  | CClose "nat option"
  | CReaddir "nat option"
  | COpenFile string int u32
  | CSetattrPlatformSpecific SetattrRequest

text \<open>
  The underlying filesystem is a parameter. It answers each call knowing every call made
  before (\<open>call list\<close>), so it may be any deterministic stateful system.
  \<^verbatim>\<open>filepath.Join\<close>, \<^verbatim>\<open>time.Now\<close> and the helper \<^verbatim>\<open>tToTv\<close> (not in the sources at hand) are
  parameters too. \<^verbatim>\<open>setattrPlatformSpecific\<close> is not in the sources either: it is one
  more call whose answer the environment gives.
\<close>

record os =
  join :: "string \<Rightarrow> string \<Rightarrow> string"
  stat :: "call list \<Rightarrow> string \<Rightarrow> oserr + FileInfo"
  exec :: "call list \<Rightarrow> call \<Rightarrow> oserr option"
  readdir :: "call list \<Rightarrow> nat option \<Rightarrow> FileInfo list \<times> oserr option"
  openfile :: "call list \<Rightarrow> string \<Rightarrow> int \<Rightarrow> u32 \<Rightarrow> oserr + nat"
  now :: "call list \<Rightarrow> int"
  tToTv :: "int \<Rightarrow> int \<times> int"

subsection \<open>Handles and the store\<close>

text \<open>
  The two closures a \<^verbatim>\<open>Handle\<close> is built with. \<^verbatim>\<open>Node.Open\<close> reopens the path its node
  has at that moment; \<^verbatim>\<open>Node.Create\<close> reopens the fixed name it computed.
\<close>

datatype reopener = ReopenNode nat int u32 | ReopenName string int u32

record Handle =
  hfile :: "nat option"
  hreopener :: reopener
  hforgetter :: "nat option"

text \<open>
  The program state: the one \<^verbatim>\<open>FS\<close>, the \<^verbatim>\<open>Node\<close> and \<^verbatim>\<open>Handle\<close> objects by address, the
  number of \<^verbatim>\<open>Node\<close> objects allocated so far, and the calls made on the underlying
  filesystem so far.
\<close>

record store =
  fsys :: FS
  objs :: "nat \<Rightarrow> Node"
  nobjs :: nat
  hobjs :: "nat \<Rightarrow> Handle"
  calls :: "call list"

definition boot :: "FS \<Rightarrow> store" where
  "boot f = \<lparr>fsys = f,
             objs = (\<lambda>_. \<lparr>realPath = [], isDir = False, flushers = {}\<rparr>),
             nobjs = 0,
             hobjs = (\<lambda>_. \<lparr>hfile = None, hreopener = ReopenName [] 0 0, hforgetter = None\<rparr>),
             calls = []\<rparr>"

text \<open>\<^verbatim>\<open>&Node{...}\<close>: a new object at the next free address.\<close>

definition alloc :: "store \<Rightarrow> Node \<Rightarrow> nat \<times> store" where
  "alloc s nd = (nobjs s, s\<lparr>objs := (objs s)(nobjs s := nd), nobjs := Suc (nobjs s)\<rparr>)"

definition getRealPath :: "store \<Rightarrow> nat \<Rightarrow> string" where
  "getRealPath s n = realPath (objs s n)"

definition updateRealPath :: "nat \<Rightarrow> string \<Rightarrow> store \<Rightarrow> store" where
  "updateRealPath n p s = s\<lparr>objs := (objs s)(n := (objs s n)\<lparr>realPath := p\<rparr>)\<rparr>"

section \<open>The node registry (filesystem.go)\<close>

text \<open>\<^verbatim>\<open>f.nodes[p]\<close>: the \<^verbatim>\<open>nil\<close> slice for a missing key.\<close>

definition bucket :: "store \<Rightarrow> string \<Rightarrow> nat list" where
  "bucket s p = (case nodes (fsys s) p of None \<Rightarrow> [] | Some ns \<Rightarrow> ns)"

definition set_nodes :: "(string \<rightharpoonup> nat list) \<Rightarrow> store \<Rightarrow> store" where
  "set_nodes m s = s\<lparr>fsys := (fsys s)\<lparr>nodes := m\<rparr>\<rparr>"

definition newNode :: "store \<Rightarrow> nat \<Rightarrow> store" where
  "newNode s n =
     (let rp = getRealPath s n
      in set_nodes ((nodes (fsys s))(rp \<mapsto> bucket s rp @ [n])) s)"

text \<open>
  \<^verbatim>\<open>nodeRenamed\<close>: append, delete, then range over \<^verbatim>\<open>f.nodes[newPath]\<close> as it is after
  the delete.
\<close>

definition nodeRenamed :: "store \<Rightarrow> string \<Rightarrow> string \<Rightarrow> store" where
  "nodeRenamed s oldPath newPath =
     (let s1 = set_nodes ((nodes (fsys s))(newPath \<mapsto> bucket s newPath @ bucket s oldPath)) s;
          s2 = set_nodes ((nodes (fsys s1))(oldPath := None)) s1
      in fold (\<lambda>n. updateRealPath n newPath) (bucket s2 newPath) s2)"

text \<open>The search loop of \<^verbatim>\<open>forgetNode\<close>: the index of the first match from \<open>i\<close> on, or \<open>-1\<close>.\<close>

fun find_node :: "nat list \<Rightarrow> nat \<Rightarrow> int \<Rightarrow> int" where
  "find_node [] n i = -1"
| "find_node (node # rest) n i = (if node = n then i else find_node rest n (i + 1))"

definition forgetNode :: "store \<Rightarrow> nat \<Rightarrow> store" where
  "forgetNode s n =
     (let rp = realPath (objs s n)
      in case nodes (fsys s) rp of
           None \<Rightarrow> s
         | Some ns \<Rightarrow>
             (let found = find_node ns n 0;
                  ns' = (if found > -1
                         then take (nat found) ns @ drop (nat found + 1) ns
                         else ns)
              in if length ns' = 0
                 then set_nodes ((nodes (fsys s))(rp := None)) s
                 else set_nodes ((nodes (fsys s))(rp \<mapsto> ns')) s))"

text \<open>\<^verbatim>\<open>FS.Root\<close>; the sleep and the log line have no effect on the state.\<close>

definition Root :: "store \<Rightarrow> nat \<times> store" where
  "Root s =
     (let (nn, s1) = alloc s \<lparr>realPath = rootPath (fsys s), isDir = True, flushers = {}\<rparr>
      in (nn, newNode s1 nn))"

text \<open>\<^verbatim>\<open>Node.Forget\<close>.\<close>

definition Forget :: "store \<Rightarrow> nat \<Rightarrow> store" where
  "Forget s n = forgetNode s n"

text \<open>\<^verbatim>\<open>moveAllxattrs\<close>.\<close>

definition moveAllxattrs :: "store \<Rightarrow> string \<Rightarrow> string \<Rightarrow> store" where
  "moveAllxattrs s from to =
     (case xattrs (fsys s) from of
        None \<Rightarrow> s
      | Some x \<Rightarrow>
          (let xs1 = (if to \<noteq> [] then (xattrs (fsys s))(to \<mapsto> x) else xattrs (fsys s))
           in s\<lparr>fsys := (fsys s)\<lparr>xattrs := xs1(from := None)\<rparr>\<rparr>))"

section \<open>Calls on the underlying filesystem\<close>

definition sys :: "os \<Rightarrow> call \<Rightarrow> store \<Rightarrow> oserr option \<times> store" where
  "sys env c s = (exec env (calls s) c, s\<lparr>calls := calls s @ [c]\<rparr>)"

definition sys_stat :: "os \<Rightarrow> string \<Rightarrow> store \<Rightarrow> (oserr + FileInfo) \<times> store" where
  "sys_stat env p s = (stat env (calls s) p, s\<lparr>calls := calls s @ [CStat p]\<rparr>)"

record RenameRequest =
  OldName :: string
  NewName :: string

text \<open>
  \<^verbatim>\<open>Node.Rename\<close>. The deferred function runs once \<^verbatim>\<open>os.Rename\<close> has returned, and only
  on \<^verbatim>\<open>err == nil\<close>. The error of \<^verbatim>\<open>os.Rename\<close> is returned untranslated.
\<close>

definition Rename :: "os \<Rightarrow> store \<Rightarrow> nat \<Rightarrow> RenameRequest \<Rightarrow> nat \<Rightarrow> error option \<times> store" where
  "Rename env s n req newDir =
     (let np = join env (getRealPath s newDir) (NewName req);
          op = join env (getRealPath s n) (OldName req);
          (err, s1) = sys env (CRename op np) s
      in case err of
           None \<Rightarrow> (None, nodeRenamed (moveAllxattrs s1 op np) op np)
         | Some e \<Rightarrow> (Some (Raw e), s1))"

text \<open>
  \<^verbatim>\<open>Node.Remove\<close>. The deferred function clears the xattrs of the removed path once
  \<^verbatim>\<open>os.Remove\<close> has succeeded.
\<close>

definition Remove :: "os \<Rightarrow> store \<Rightarrow> nat \<Rightarrow> string \<Rightarrow> error option \<times> store" where
  "Remove env s n reqName =
     (let name = join env (getRealPath s n) reqName;
          (err, s1) = sys env (CRemove name) s
      in case err of
           None \<Rightarrow> (None, moveAllxattrs s1 name [])
         | Some e \<Rightarrow> (Some (Raw e), s1))"

subsection \<open>File modes (Go's \<^verbatim>\<open>os.FileMode\<close>)\<close>

text \<open>
  The type bits of \<^verbatim>\<open>os.FileMode\<close> as the Go standard library fixes them: \<^verbatim>\<open>ModeDir\<close> is
  bit 31, \<^verbatim>\<open>ModeSymlink\<close> bit 27, \<^verbatim>\<open>ModeDevice\<close> bit 26, \<^verbatim>\<open>ModeNamedPipe\<close> bit 25,
  \<^verbatim>\<open>ModeSocket\<close> bit 24, \<^verbatim>\<open>ModeCharDevice\<close> bit 21, \<^verbatim>\<open>ModeIrregular\<close> bit 19, and
  \<^verbatim>\<open>ModeType\<close> is their union.
\<close>

definition ModeDir :: u32 where "ModeDir = 0x80000000"


definition IsDir :: "u32 \<Rightarrow> bool" where
  "IsDir m \<longleftrightarrow> m AND ModeDir \<noteq> 0"


section \<open>Node methods\<close>

text \<open>
  \<^verbatim>\<open>Node.Access\<close>. \<^verbatim>\<open>fi.Mode()>>6\<close> shifts the whole 32-bit mode; the conversion to
  \<^verbatim>\<open>uint32\<close> changes nothing.
\<close>

definition Access :: "os \<Rightarrow> store \<Rightarrow> nat \<Rightarrow> u32 \<Rightarrow> error option \<times> store" where
  "Access env s n reqMask =
     (let (r, s1) = sys_stat env (getRealPath s n) s
      in case r of
           Inl e \<Rightarrow> (translateError (Some e), s1)
         | Inr fi \<Rightarrow>
             if reqMask AND drop_bit 6 (fi_mode fi) \<noteq> reqMask then (Some EPERM, s1)
             else (None, s1))"

text \<open>
  \<^verbatim>\<open>Node.Lookup\<close>. The source translates the error of \<^verbatim>\<open>os.Stat\<close> twice; the second
  translation finds a \<^verbatim>\<open>fuse.Errno\<close> or the untouched error and returns it as it is.
\<close>

definition Lookup :: "os \<Rightarrow> store \<Rightarrow> nat \<Rightarrow> string \<Rightarrow> (error + nat) \<times> store" where
  "Lookup env s n name =
     (if \<not> isDir (objs s n) then (Inl ENOTSUP, s)
      else
        let p = join env (getRealPath s n) name;
            (r, s1) = sys_stat env p s
        in case r of
             Inl e \<Rightarrow> (Inl (translateErr e), s1)
           | Inr fi \<Rightarrow>
               (let (nn, s2) = alloc s1 \<lparr>realPath = p, isDir = IsDir (fi_mode fi), flushers = {}\<rparr>
                in (Inr nn, newNode s2 nn)))"

text \<open>\<^verbatim>\<open>Node.Mkdir\<close>.\<close>

definition Mkdir :: "os \<Rightarrow> store \<Rightarrow> nat \<Rightarrow> string \<Rightarrow> u32 \<Rightarrow> (error + nat) \<times> store" where
  "Mkdir env s n reqName reqMode =
     (let name = join env (getRealPath s n) reqName;
          (err, s1) = sys env (CMkdir name reqMode) s
      in case err of
           Some e \<Rightarrow> (Inl (translateErr e), s1)
         | None \<Rightarrow>
             (let (nn, s2) = alloc s1 \<lparr>realPath = name, isDir = True, flushers = {}\<rparr>
              in (Inr nn, newNode s2 nn)))"

subsection \<open>Handles of a node\<close>

text \<open>
  A handle enters \<^verbatim>\<open>flushers\<close> by \<^verbatim>\<open>rememberHandle\<close>, which \<^verbatim>\<open>Open\<close> and \<^verbatim>\<open>Create\<close> call on
  the handle they have opened, and leaves it by \<^verbatim>\<open>forgetHandle\<close>, which the forgetter
  of the handle calls in \<^verbatim>\<open>Release\<close>.
\<close>

definition rememberHandle :: "nat \<Rightarrow> nat \<Rightarrow> store \<Rightarrow> store" where
  "rememberHandle n h s =
     s\<lparr>objs := (objs s)(n := (objs s n)\<lparr>flushers := insert h (flushers (objs s n))\<rparr>)\<rparr>"

definition forgetHandle :: "nat \<Rightarrow> nat \<Rightarrow> store \<Rightarrow> store" where
  "forgetHandle n h s =
     s\<lparr>objs := (objs s)(n := (objs s n)\<lparr>flushers := flushers (objs s n) - {h}\<rparr>)\<rparr>"


text \<open>\<^verbatim>\<open>Handle.Release\<close>: the forgetter, when there is one, then \<^verbatim>\<open>h.f.Close()\<close>.\<close>

definition Release :: "os \<Rightarrow> store \<Rightarrow> nat \<Rightarrow> error option \<times> store" where
  "Release env s h =
     (let s1 = (case hforgetter (hobjs s h) of None \<Rightarrow> s | Some n \<Rightarrow> forgetHandle n h s);
          (err, s2) = sys env (CClose (hfile (hobjs s1 h))) s1
      in (map_option Raw err, s2))"

text \<open>
  \<^verbatim>\<open>Node.Fsync\<close>. Go's \<^verbatim>\<open>range\<close> over a map starts at a key the language does not fix,
  and the loop body returns at once: the method is a relation between the state and
  each result it may give. With no handle the loop body never runs.
\<close>

inductive Fsync :: "os \<Rightarrow> store \<Rightarrow> nat \<Rightarrow> error option \<times> store \<Rightarrow> bool"
  for env :: os and s :: store and n :: nat
where
  sync_one:
    "h \<in> flushers (objs s n) \<Longrightarrow>
     sys env (CSync (hfile (hobjs s h))) s = (err, s1) \<Longrightarrow>
     Fsync env s n (map_option Raw err, s1)"
| no_handle:
    "flushers (objs s n) = {} \<Longrightarrow> Fsync env s n (Some EIO, s)"

code_pred Fsync .

subsection \<open>Setattr\<close>

text \<open>
  \<^verbatim>\<open>if err = ...; err != nil { return translateError(err) }\<close>: stop with the translated
  error, or go on with the rest of the method.
\<close>

definition on_ok ::
  "oserr option \<times> store \<Rightarrow> (store \<Rightarrow> (error + 'a) \<times> store) \<Rightarrow> (error + 'a) \<times> store" where
  "on_ok r k = (case fst r of Some e \<Rightarrow> (Inl (translateErr e), snd r) | None \<Rightarrow> k (snd r))"

text \<open>
  \<^verbatim>\<open>Node.Setattr\<close>, block by block. The block for \<^verbatim>\<open>req.Valid.Mtime()\<close> fills the local
  array \<^verbatim>\<open>tvs\<close> and ends: nothing reads \<^verbatim>\<open>tvs\<close> afterwards, here as in the source. The
  block for \<^verbatim>\<open>req.Valid.Handle()\<close> only logs. When both \<^verbatim>\<open>Uid\<close> and \<^verbatim>\<open>Gid\<close> are valid the
  source calls \<^verbatim>\<open>os.Chown\<close> with both and then falls through to the stat and the
  second \<^verbatim>\<open>os.Chown\<close>.
\<close>

definition Setattr ::
  "os \<Rightarrow> store \<Rightarrow> nat \<Rightarrow> SetattrRequest \<Rightarrow> (error + FileInfo) \<times> store" where
  "Setattr env s n req =
     on_ok (if VSize \<in> Valid req
            then sys env (CTruncate (getRealPath s n) (Size req)) s else (None, s))
     (\<lambda>s1.
        let tvs = (if VMtime \<in> Valid req
                   then Some (if VAtime \<notin> Valid req then tToTv env (now env (calls s1))
                              else tToTv env (Atime req),
                              tToTv env (Mtime req))
                   else None)
        in
        on_ok (if VMode \<in> Valid req
               then sys env (CChmod (getRealPath s1 n) (Mode req)) s1 else (None, s1))
        (\<lambda>s2.
           (\<lambda>k. if VUid \<in> Valid req \<or> VGid \<in> Valid req
                then
                  on_ok (if VUid \<in> Valid req \<and> VGid \<in> Valid req
                         then sys env (CChown (getRealPath s2 n) (Uid req) (Gid req)) s2
                         else (None, s2))
                  (\<lambda>s3.
                     let (r, s4) = sys_stat env (getRealPath s3 n) s3
                     in case r of
                          Inl e \<Rightarrow> (Inl (translateErr e), s4)
                        | Inr fi \<Rightarrow>
                            on_ok (if VUid \<in> Valid req
                                   then sys env (CChown (getRealPath s4 n) (Uid req) (fi_gid fi)) s4
                                   else sys env (CChown (getRealPath s4 n) (fi_uid fi) (Gid req)) s4)
                                  k)
                else k s2)
           (\<lambda>s5.
              on_ok (sys env (CSetattrPlatformSpecific req) s5)
              (\<lambda>s6.
                 let (r, s7) = sys_stat env (getRealPath s6 n) s6
                 in case r of
                      Inl e \<Rightarrow> (Inl (translateErr e), s7)
                    | Inr fi \<Rightarrow> (Inr fi, s7)))))"

section \<open>Extended attributes\<close>

text \<open>\<^verbatim>\<open>Node.Getxattr\<close>: the bytes put into \<^verbatim>\<open>resp.Xattr\<close>, or the error.\<close>

definition Getxattr :: "store \<Rightarrow> nat \<Rightarrow> string \<Rightarrow> error + bytes" where
  "Getxattr s n name =
     (if \<not> inMemoryXattr (fsys s) then Inl ENOTSUP
      else case xattrs (fsys s) (getRealPath s n) of
             None \<Rightarrow> Inl ENODATA
           | Some x \<Rightarrow>
               (case fmlookup x name of
                  Some v \<Rightarrow> Inr v
                | None \<Rightarrow> Inl ENODATA))"

text \<open>\<^verbatim>\<open>Node.Setxattr\<close>; the stored value is a copy of the request's bytes.\<close>

definition Setxattr :: "store \<Rightarrow> nat \<Rightarrow> string \<Rightarrow> bytes \<Rightarrow> error option \<times> store" where
  "Setxattr s n name buf =
     (if \<not> inMemoryXattr (fsys s) then (Some ENOTSUP, s)
      else
        let p = getRealPath s n;
            x = (case xattrs (fsys s) p of None \<Rightarrow> fmempty | Some x \<Rightarrow> x)
        in (None, s\<lparr>fsys := (fsys s)\<lparr>xattrs := (xattrs (fsys s))(p \<mapsto> fmupd name buf x)\<rparr>\<rparr>))"

text \<open>\<^verbatim>\<open>Node.Removexattr\<close>.\<close>

definition Removexattr :: "store \<Rightarrow> nat \<Rightarrow> string \<Rightarrow> error option \<times> store" where
  "Removexattr s n name =
     (if \<not> inMemoryXattr (fsys s) then (Some ENOTSUP, s)
      else
        let p = getRealPath s n
        in case xattrs (fsys s) p of
             None \<Rightarrow> (Some ENODATA, s)
           | Some x \<Rightarrow>
               (case fmlookup x name of
                  Some _ \<Rightarrow>
                    (None, s\<lparr>fsys := (fsys s)\<lparr>xattrs := (xattrs (fsys s))(p \<mapsto> fmdrop name x)\<rparr>\<rparr>)
                | None \<Rightarrow> (Some ENODATA, s)))"

text \<open>
  The names of one inner map after \<^verbatim>\<open>sort.Strings\<close>: the keys, each once, in the bytewise
  lexicographic order of Go's string comparison. The order in which \<^verbatim>\<open>range\<close> hands out
  the keys does not matter after the sort.
\<close>

definition sorted_names :: "xattr_map \<Rightarrow> string list" where
  "sorted_names x = sorted_list_of_fset (fmdom x)"

text \<open>
  The slicing of \<^verbatim>\<open>Listxattr\<close> on the sorted names. \<^verbatim>\<open>req.Position\<close> and \<^verbatim>\<open>req.Size\<close> are
  \<^verbatim>\<open>uint32\<close>; \<^verbatim>\<open>int\<close> is the 64-bit \<^verbatim>\<open>int\<close> of the amd64 and arm64 targets, so the
  conversions keep the value and every number compared here is a natural number.
\<close>

definition page :: "string list \<Rightarrow> u32 \<Rightarrow> u32 \<Rightarrow> string list" where
  "page names position reqSize =
     (if unat position \<ge> length names then []
      else
        let names1 = drop (unat position) names;
            s0 = unat reqSize;
            s1 = (if s0 = 0 \<or> s0 > length names1 then length names1 else s0)
        in if s1 > 0 then take s1 names1 else [])"

text \<open>
  \<^verbatim>\<open>Node.Listxattr\<close>: the names handed to \<^verbatim>\<open>resp.Append\<close>, in order (none when the
  method returns before appending), or the error.
\<close>

definition Listxattr :: "store \<Rightarrow> nat \<Rightarrow> u32 \<Rightarrow> u32 \<Rightarrow> error + string list" where
  "Listxattr s n position reqSize =
     (if \<not> inMemoryXattr (fsys s) then Inl ENOTSUP
      else case xattrs (fsys s) (getRealPath s n) of
             None \<Rightarrow> Inr []
           | Some x \<Rightarrow> Inr (page (sorted_names x) position reqSize))"

text \<open>
  A client that lists page after page: it starts at \<open>position\<close>, asks for \<open>c\<close> names with
  each count \<open>c\<close> of the list in turn, and advances its \<^verbatim>\<open>uint32\<close> position by the number
  of names it got. The result is everything it has read.
\<close>

fun list_pages :: "store \<Rightarrow> nat \<Rightarrow> u32 \<Rightarrow> u32 list \<Rightarrow> string list" where
  "list_pages s n position [] = []"
| "list_pages s n position (c # cs) =
     (case Listxattr s n position c of
        Inl _ \<Rightarrow> []
      | Inr names \<Rightarrow> names @ list_pages s n (position + word_of_nat (length names)) cs)"

section \<open>Directory listing (handle sources)\<close>











section \<open>Paths\<close>

text \<open>\<open>d\<close> lies strictly below \<open>p\<close>: it is \<open>p\<close>, a separator, and at least one more byte.\<close>

definition strict_descendant :: "string \<Rightarrow> string \<Rightarrow> bool" where
  "strict_descendant p d \<longleftrightarrow>
     length p + 1 < length d \<and> take (length p + 1) d = p @ ''/''"

section \<open>Registry invariants\<close>

text \<open>
  Every occurrence of a node in the registry is in the bucket of the node's own path, and
  so no node is under two keys.
\<close>

definition registry_inv :: "store \<Rightarrow> bool" where
  "registry_inv s \<longleftrightarrow> (\<forall>p n. n \<in> set (bucket s p) \<longrightarrow> realPath (objs s n) = p)"

definition allocated :: "store \<Rightarrow> bool" where
  "allocated s \<longleftrightarrow> (\<forall>p n. n \<in> set (bucket s p) \<longrightarrow> n < nobjs s)"

text \<open>
  The property of the registry as the data model words it: a registered node is in the
  bucket keyed by its own current path, and in no bucket under another key.
\<close>

definition registry_consistent :: "store \<Rightarrow> bool" where
  "registry_consistent s \<longleftrightarrow>
     (\<forall>p n. n \<in> set (bucket s p) \<longrightarrow> n \<in> set (bucket s (getRealPath s n))) \<and>
     (\<forall>p q n. n \<in> set (bucket s p) \<and> n \<in> set (bucket s q) \<longrightarrow> p = q)"

text \<open>
  The states the registry can be in. It starts empty, as \<^verbatim>\<open>NewFS\<close> builds it (the
  emulation flag either way), and changes by the three registry functions only. Every
  other step of the program (\<open>frame\<close>) leaves the registry map alone, may allocate
  objects, and never writes the path of an existing \<^verbatim>\<open>Node\<close>: \<^verbatim>\<open>updateRealPath\<close> is called
  in \<^verbatim>\<open>nodeRenamed\<close> and nowhere else. \<^verbatim>\<open>newNode\<close> is given an allocated node.
\<close>

inductive reachable :: "store \<Rightarrow> bool" where
  boot: "reachable (boot ((NewFS l)\<lparr>inMemoryXattr := b\<rparr>))"
| newNode: "reachable s \<Longrightarrow> n < nobjs s \<Longrightarrow> reachable (newNode s n)"
| nodeRenamed: "reachable s \<Longrightarrow> reachable (nodeRenamed s oldPath newPath)"
| forgetNode: "reachable s \<Longrightarrow> reachable (forgetNode s n)"
| frame: "reachable s \<Longrightarrow> nodes (fsys s') = nodes (fsys s) \<Longrightarrow> nobjs s \<le> nobjs s' \<Longrightarrow>
          (\<forall>n < nobjs s. realPath (objs s' n) = realPath (objs s n)) \<Longrightarrow> reachable s'"

section \<open>Definitions used in the proofs and examples\<close>

text \<open>The paging client on a fixed list of names.\<close>

fun pages :: "string list \<Rightarrow> u32 \<Rightarrow> u32 list \<Rightarrow> string list" where
  "pages names pos [] = []"
| "pages names pos (c # cs) =
     page names pos c @ pages names (pos + word_of_nat (length (page names pos c))) cs"

text \<open>
  An environment in which every call on the underlying filesystem succeeds; \<open>join\<close>
  agrees with \<^verbatim>\<open>filepath.Join\<close> on a clean directory and a plain name.
\<close>

definition plain_file :: FileInfo where
  "plain_file = \<lparr>fi_name = ''f'', fi_mode = 0x1A4, fi_ino = 7, fi_uid = 1000, fi_gid = 1000\<rparr>"

definition env_ok :: os where
  "env_ok = \<lparr>join = (\<lambda>d n. if d = ''.'' then n else d @ ''/'' @ n),
             stat = (\<lambda>_ _. Inr plain_file),
             exec = (\<lambda>_ _. None),
             readdir = (\<lambda>_ _. ([], None)),
             openfile = (\<lambda>_ _ _ _. Inr 3),
             now = (\<lambda>_. 0),
             tToTv = (\<lambda>t. (t, 0))\<rparr>"

text \<open>
  A state with emulation on: the root node 0, two aliases 1 and 2 of the file \<open>a\<close>, a
  node 3 for the file \<open>b\<close>, and three attributes stored under \<open>a\<close>.
\<close>

definition demo_attrs :: xattr_map where
  "demo_attrs =
     fmupd ''user.c'' [3] (fmupd ''user.a'' [1] (fmupd ''user.b'' [2] fmempty))"

definition demo_node :: "nat \<Rightarrow> Node" where
  "demo_node n =
     (if n = 0 then \<lparr>realPath = ''.'', isDir = True, flushers = {}\<rparr>
      else if n = 1 \<or> n = 2 then \<lparr>realPath = ''a'', isDir = False, flushers = {}\<rparr>
      else \<lparr>realPath = ''b'', isDir = False, flushers = {}\<rparr>)"

definition demo :: store where
  "demo = \<lparr>fsys = \<lparr>rootPath = ''.'', xattrs = [''a'' \<mapsto> demo_attrs],
                    nodes = [''.'' \<mapsto> [0], ''a'' \<mapsto> [1, 2], ''b'' \<mapsto> [3]],
                    latency = 0, inMemoryXattr = True\<rparr>,
            objs = demo_node, nobjs = 4,
            hobjs = (\<lambda>_. \<lparr>hfile = Some 3, hreopener = ReopenNode 0 0 0, hforgetter = None\<rparr>),
            calls = []\<rparr>"









text \<open>
  A state built by the methods themselves, emulation on: the root, a lookup of the
  directory \<open>d\<close>, a lookup of the file \<open>f\<close> inside it, and an attribute set on that file.
  Then the request to rename \<open>d\<close> to \<open>e\<close> through the root.
\<close>

definition dir_info :: FileInfo where
  "dir_info = \<lparr>fi_name = ''d'', fi_mode = 0x800001ED, fi_ino = 9, fi_uid = 1000, fi_gid = 1000\<rparr>"

definition env_tree :: os where
  "env_tree = env_ok\<lparr>stat := (\<lambda>_ p. if p = ''d'' then Inr dir_info else Inr plain_file)\<rparr>"

definition tree0 :: store where
  "tree0 = snd (Root (boot ((NewFS 0)\<lparr>inMemoryXattr := True\<rparr>)))"

definition tree1 :: store where
  "tree1 = snd (Lookup env_tree tree0 0 ''d'')"

definition tree2 :: store where
  "tree2 = snd (Lookup env_tree tree1 1 ''f'')"

definition tree3 :: store where
  "tree3 = snd (Setxattr tree2 2 ''user.k'' [1])"

definition rename_d_e :: RenameRequest where
  "rename_d_e = \<lparr>OldName = ''d'', NewName = ''e''\<rparr>"

text \<open>
  Two aliases of the file \<open>a\<close> from two lookups, a node for the file \<open>b\<close>, and an attribute
  set on \<open>b\<close>; the requests to rename \<open>a\<close> to \<open>b\<close> and \<open>a\<close> to itself; a request to set the
  modification time only.
\<close>

definition alias1 :: store where
  "alias1 = snd (Lookup env_ok tree0 0 ''a'')"

definition alias2 :: store where
  "alias2 = snd (Lookup env_ok alias1 0 ''a'')"

definition alias3 :: store where
  "alias3 = snd (Lookup env_ok alias2 0 ''b'')"

definition alias4 :: store where
  "alias4 = snd (Setxattr alias3 3 ''user.k'' [1])"

definition rename_a_b :: RenameRequest where
  "rename_a_b = \<lparr>OldName = ''a'', NewName = ''b''\<rparr>"

definition rename_a_a :: RenameRequest where
  "rename_a_a = \<lparr>OldName = ''a'', NewName = ''a''\<rparr>"

definition req_mtime :: SetattrRequest where
  "req_mtime = \<lparr>Valid = {VMtime}, Size = 0, Atime = 0, Mtime = 1700000000,
                 Mode = 0, Uid = 0, Gid = 0\<rparr>"

text \<open>An environment that refuses every rename.\<close>

definition env_rename_fails :: os where
  "env_rename_fails =
     env_tree\<lparr>exec := (\<lambda>_ c. case c of CRename _ _ \<Rightarrow> Some (OsErr Permission 13) | _ \<Rightarrow> None)\<rparr>"

subsection \<open>What each registry function does to buckets and paths\<close>

lemma bucket_set_nodes [simp]:
  "bucket (set_nodes m s) p = (case m p of None \<Rightarrow> [] | Some ns \<Rightarrow> ns)"
  by (simp add: bucket_def set_nodes_def)

lemma objs_set_nodes [simp]: "objs (set_nodes m s) = objs s"
  by (simp add: set_nodes_def)

lemma nobjs_set_nodes [simp]: "nobjs (set_nodes m s) = nobjs s"
  by (simp add: set_nodes_def)

lemma hobjs_set_nodes [simp]: "hobjs (set_nodes m s) = hobjs s"
  by (simp add: set_nodes_def)

lemma calls_set_nodes [simp]: "calls (set_nodes m s) = calls s"
  by (simp add: set_nodes_def)

lemma nodes_set_nodes [simp]: "nodes (fsys (set_nodes m s)) = m"
  by (simp add: set_nodes_def)

lemma xattrs_set_nodes [simp]: "xattrs (fsys (set_nodes m s)) = xattrs (fsys s)"
  by (simp add: set_nodes_def)

lemma flag_set_nodes [simp]: "inMemoryXattr (fsys (set_nodes m s)) = inMemoryXattr (fsys s)"
  by (simp add: set_nodes_def)

lemma fsys_updateRealPath [simp]: "fsys (updateRealPath n p s) = fsys s"
  by (simp add: updateRealPath_def)

lemma fsys_fold_update [simp]: "fsys (fold (\<lambda>n. updateRealPath n p) ns s) = fsys s"
  by (induction ns arbitrary: s) simp_all

lemma nobjs_fold_update [simp]: "nobjs (fold (\<lambda>n. updateRealPath n p) ns s) = nobjs s"
  by (induction ns arbitrary: s) (simp_all add: updateRealPath_def)

lemma calls_fold_update [simp]: "calls (fold (\<lambda>n. updateRealPath n p) ns s) = calls s"
  by (induction ns arbitrary: s) (simp_all add: updateRealPath_def)

lemma bucket_fold_update [simp]: "bucket (fold (\<lambda>n. updateRealPath n p) ns s) q = bucket s q"
  by (simp add: bucket_def)

lemma realPath_fold_update:
  "realPath (objs (fold (\<lambda>n. updateRealPath n p) ns s) m) =
     (if m \<in> set ns then p else realPath (objs s m))"
  by (induction ns arbitrary: s) (auto simp: updateRealPath_def)

lemma bucket_newNode:
  "bucket (newNode s n) p =
     (if p = getRealPath s n then bucket s p @ [n] else bucket s p)"
  by (simp add: newNode_def Let_def bucket_def)

lemma objs_newNode [simp]: "objs (newNode s n) = objs s"
  by (simp add: newNode_def Let_def)

lemma nobjs_newNode [simp]: "nobjs (newNode s n) = nobjs s"
  by (simp add: newNode_def Let_def)

lemma bucket_nodeRenamed:
  "bucket (nodeRenamed s a b) p =
     (if p = a then [] else if p = b then bucket s b @ bucket s a else bucket s p)"
  by (simp add: nodeRenamed_def Let_def bucket_def)

lemma realPath_nodeRenamed:
  "realPath (objs (nodeRenamed s a b) m) =
     (if a \<noteq> b \<and> m \<in> set (bucket s b @ bucket s a) then b else realPath (objs s m))"
  by (auto simp add: nodeRenamed_def Let_def realPath_fold_update)

lemma nobjs_nodeRenamed [simp]: "nobjs (nodeRenamed s a b) = nobjs s"
  by (simp add: nodeRenamed_def Let_def)

lemma xattrs_nodeRenamed [simp]: "xattrs (fsys (nodeRenamed s a b)) = xattrs (fsys s)"
  by (simp add: nodeRenamed_def Let_def)

lemma flag_nodeRenamed [simp]:
  "inMemoryXattr (fsys (nodeRenamed s a b)) = inMemoryXattr (fsys s)"
  by (simp add: nodeRenamed_def Let_def)

lemma objs_forgetNode [simp]: "objs (forgetNode s n) = objs s"
  by (simp add: forgetNode_def Let_def split: option.splits)

lemma nobjs_forgetNode [simp]: "nobjs (forgetNode s n) = nobjs s"
  by (simp add: forgetNode_def Let_def split: option.splits)

lemma set_bucket_forgetNode: "set (bucket (forgetNode s n) p) \<subseteq> set (bucket s p)"
  by (auto simp: forgetNode_def Let_def bucket_def
      split: option.splits if_splits dest: in_set_takeD in_set_dropD)

subsection \<open>The invariant is kept\<close>

lemma registry_inv_newNode: "registry_inv s \<Longrightarrow> registry_inv (newNode s n)"
  by (auto simp: registry_inv_def bucket_newNode getRealPath_def split: if_splits)

lemma registry_inv_nodeRenamed: "registry_inv s \<Longrightarrow> registry_inv (nodeRenamed s a b)"
  by (auto simp: registry_inv_def bucket_nodeRenamed realPath_nodeRenamed split: if_splits)

lemma registry_inv_forgetNode: "registry_inv s \<Longrightarrow> registry_inv (forgetNode s n)"
  using set_bucket_forgetNode by (fastforce simp: registry_inv_def)

lemma reachable_allocated: "reachable s \<Longrightarrow> allocated s"
proof (induction rule: reachable.induct)
  case (boot l b)
  show ?case by (simp add: allocated_def boot_def bucket_def NewFS_def)
next
  case (newNode s n)
  then show ?case by (auto simp: allocated_def bucket_newNode split: if_splits)
next
  case (nodeRenamed s a b)
  then show ?case by (auto simp: allocated_def bucket_nodeRenamed split: if_splits)
next
  case (forgetNode s n)
  then show ?case using set_bucket_forgetNode by (fastforce simp: allocated_def)
next
  case (frame s s')
  then show ?case by (fastforce simp: allocated_def bucket_def)
qed

lemma reachable_registry_inv: "reachable s \<Longrightarrow> registry_inv s"
proof (induction rule: reachable.induct)
  case (boot l b)
  show ?case by (simp add: registry_inv_def boot_def bucket_def NewFS_def)
next
  case (newNode s n)
  then show ?case by (simp add: registry_inv_newNode)
next
  case (nodeRenamed s a b)
  then show ?case by (simp add: registry_inv_nodeRenamed)
next
  case (forgetNode s n)
  then show ?case by (simp add: registry_inv_forgetNode)
next
  case (frame s s')
  have al: "allocated s" using frame.hyps(1) by (rule reachable_allocated)
  show ?case
    unfolding registry_inv_def
  proof (intro allI impI)
    fix p n assume "n \<in> set (bucket s' p)"
    then have m: "n \<in> set (bucket s p)" using frame.hyps(2) by (simp add: bucket_def)
    then have "n < nobjs s" using al by (auto simp: allocated_def)
    then have "realPath (objs s' n) = realPath (objs s n)" using frame.hyps(4) by simp
    then show "realPath (objs s' n) = p" using frame.IH m by (simp add: registry_inv_def)
  qed
qed

lemma registry_inv_consistent: "registry_inv s \<Longrightarrow> registry_consistent s"
  unfolding registry_inv_def registry_consistent_def getRealPath_def by metis

text \<open>The methods that allocate and register a node stay within the reachable states.\<close>

lemma reachable_alloc: "reachable s \<Longrightarrow> reachable (snd (alloc s nd))"
  by (erule reachable.frame) (simp_all add: alloc_def)

lemma reachable_Root: "reachable s \<Longrightarrow> reachable (snd (Root s))"
proof -
  assume r: "reachable s"
  have "reachable (newNode (snd (alloc s nd)) (nobjs s))" for nd
    by (rule reachable.newNode [OF reachable_alloc [OF r]]) (simp add: alloc_def)
  then show ?thesis by (simp add: Root_def alloc_def Let_def)
qed

subsection \<open>Listing extended attributes\<close>

lemma page_take_drop:
  "page names pos sz =
     take (if unat sz = 0 then length names else unat sz) (drop (unat pos) names)"
  by (auto simp: page_def Let_def)

lemma page_limits:
  "page names pos sz =
     take (if unat sz = 0 \<or> length names - unat pos < unat sz
           then length names - unat pos else unat sz)
          (drop (unat pos) names)"
  by (auto simp: page_take_drop)

lemma length_page:
  "length (page names pos sz) =
     (if unat sz = 0 then length names - unat pos else min (unat sz) (length names - unat pos))"
  by (auto simp: page_take_drop)

lemma page_nonempty: "unat pos < length names \<Longrightarrow> page names pos sz \<noteq> []"
  by (auto simp: page_take_drop)

lemma page_past_end: "length names \<le> unat pos \<Longrightarrow> page names pos sz = []"
  by (simp add: page_take_drop)

lemma sorted_names_props:
  "sorted (sorted_names x) \<and> distinct (sorted_names x) \<and> set (sorted_names x) = fset (fmdom x)"
  by (simp add: sorted_names_def sorted_list_of_fset.rep_eq)

lemma take_length_take: "take (length (take m ys)) ys = take m ys"
  by (cases "m \<le> length ys") (simp_all add: min_def)

lemma page_is_take: "page names pos sz = take (length (page names pos sz)) (drop (unat pos) names)"
  by (simp only: page_take_drop take_length_take)

lemma unat_advance:
  fixes pos :: u32
  assumes "unat pos + k \<le> n" "n < 2 ^ 32"
  shows "unat (pos + word_of_nat k) = unat pos + k"
  using assms by (simp add: unat_word_ariths unat_of_nat take_bit_nat_eq_self)

lemma pages_prefix:
  assumes "length names < 2 ^ 32" "unat pos \<le> length names"
  shows "\<exists>j. pages names pos cs = take j (drop (unat pos) names)"
  using assms(2)
proof (induction cs arbitrary: pos)
  case Nil
  show ?case by (rule exI [of _ 0]) simp
next
  case (Cons c cs)
  let ?r = "page names pos c"
  let ?k = "length ?r"
  have k: "unat pos + ?k \<le> length names"
    using Cons.prems by (auto simp: length_page min_def)
  have adv: "unat (pos + word_of_nat ?k) = unat pos + ?k"
    using k assms(1) by (rule unat_advance)
  obtain j where j: "pages names (pos + word_of_nat ?k) cs = take j (drop (unat pos + ?k) names)"
    using Cons.IH [of "pos + word_of_nat ?k"] adv k by auto
  have r: "?r = take ?k (drop (unat pos) names)"
    by (rule page_is_take)
  have d: "drop (unat pos + ?k) names = drop ?k (drop (unat pos) names)"
    by (simp add: add.commute)
  have "?r @ take j (drop (unat pos + ?k) names) = take (?k + j) (drop (unat pos) names)"
    unfolding d by (subst r) (simp only: take_add)
  then show ?case using j by auto
qed

lemma pages_all:
  assumes "length names < 2 ^ 32" "unat pos \<le> length names"
    and "length names - unat pos \<le> length cs"
  shows "pages names pos cs = drop (unat pos) names"
  using assms(2,3)
proof (induction cs arbitrary: pos)
  case Nil
  then show ?case by simp
next
  case (Cons c cs)
  let ?r = "page names pos c"
  let ?k = "length ?r"
  have k: "unat pos + ?k \<le> length names"
    using Cons.prems by (auto simp: length_page min_def)
  have adv: "unat (pos + word_of_nat ?k) = unat pos + ?k"
    using k assms(1) by (rule unat_advance)
  have pos: "0 < ?k" if "unat pos < length names"
    using page_nonempty [OF that, of c] by simp
  have "length names - (unat pos + ?k) \<le> length cs"
  proof (cases "unat pos < length names")
    case True
    then have "0 < ?k" by (rule pos)
    then show ?thesis using Cons.prems(2) by (simp only: length_Cons)
  next
    case False
    then show ?thesis by simp
  qed
  then have ih: "pages names (pos + word_of_nat ?k) cs = drop (unat pos + ?k) names"
    using Cons.IH [of "pos + word_of_nat ?k"] adv k by simp
  have r: "?r = take ?k (drop (unat pos) names)"
    by (rule page_is_take)
  have d: "drop (unat pos + ?k) names = drop ?k (drop (unat pos) names)"
    by (simp add: add.commute)
  have "?r @ drop (unat pos + ?k) names = drop (unat pos) names"
    unfolding d by (subst r) (simp only: append_take_drop_id)
  then show ?case using ih by simp
qed

lemma list_pages_pages:
  "inMemoryXattr (fsys s) \<Longrightarrow> xattrs (fsys s) (getRealPath s n) = Some x \<Longrightarrow>
   list_pages s n pos cs = pages (sorted_names x) pos cs"
  by (induction cs arbitrary: pos) (simp_all add: Listxattr_def)

subsection \<open>Permission bits\<close>

lemma and_subset_bits:
  fixes m w :: u32
  shows "(m AND w = m) \<longleftrightarrow> (\<forall>i. bit m i \<longrightarrow> bit w i)"
proof
  assume eq: "m AND w = m"
  show "\<forall>i. bit m i \<longrightarrow> bit w i"
  proof (intro allI impI)
    fix i assume "bit m i"
    then have "bit (m AND w) i" by (simp only: eq)
    then show "bit w i" by (simp add: bit_and_iff)
  qed
next
  assume "\<forall>i. bit m i \<longrightarrow> bit w i"
  then show "m AND w = m" by (intro bit_eqI) (auto simp: bit_and_iff)
qed

lemma and_low_bits:
  fixes m w :: u32
  assumes "m AND 7 = m"
  shows "(m AND w = m) \<longleftrightarrow> (m AND (w AND 7) = m)"
proof -
  have "m AND (w AND 7) = (m AND 7) AND w"
    by (simp add: and.assoc and.commute and.left_commute)
  then show ?thesis using assms by simp
qed

subsection \<open>Fsync\<close>



lemma Fsync_never_succeeds_when_sync_fails:
  assumes "flushers (objs s n) \<noteq> {}"
    and "\<And>h. h \<in> flushers (objs s n) \<Longrightarrow> exec env (calls s) (CSync (hfile (hobjs s h))) \<noteq> None"
  shows "\<not> (\<exists>s'. Fsync env s n (None, s'))"
  using assms by (auto simp: Fsync.simps sys_def)

subsection \<open>Directory listing\<close>




subsection \<open>Rename: what moves and what stays\<close>

lemma bucket_moveAllxattrs [simp]: "bucket (moveAllxattrs s a b) p = bucket s p"
  by (simp add: moveAllxattrs_def bucket_def Let_def split: option.splits)

lemma objs_moveAllxattrs [simp]: "objs (moveAllxattrs s a b) = objs s"
  by (simp add: moveAllxattrs_def Let_def split: option.splits)

lemma nobjs_moveAllxattrs [simp]: "nobjs (moveAllxattrs s a b) = nobjs s"
  by (simp add: moveAllxattrs_def Let_def split: option.splits)

lemma nodes_moveAllxattrs [simp]: "nodes (fsys (moveAllxattrs s a b)) = nodes (fsys s)"
  by (simp add: moveAllxattrs_def Let_def split: option.splits)

lemma flag_moveAllxattrs [simp]:
  "inMemoryXattr (fsys (moveAllxattrs s a b)) = inMemoryXattr (fsys s)"
  by (simp add: moveAllxattrs_def Let_def split: option.splits)

lemma xattrs_moveAllxattrs:
  "xattrs (fsys (moveAllxattrs s a b)) p =
     (case xattrs (fsys s) a of
        None \<Rightarrow> xattrs (fsys s) p
      | Some x \<Rightarrow> if p = a then None else if p = b \<and> b \<noteq> [] then Some x else xattrs (fsys s) p)"
  by (auto simp: moveAllxattrs_def Let_def split: option.splits)

lemma calls_moveAllxattrs [simp]: "calls (moveAllxattrs s a b) = calls s"
  by (simp add: moveAllxattrs_def Let_def split: option.splits)

lemma calls_nodeRenamed [simp]: "calls (nodeRenamed s a b) = calls s"
  by (simp add: nodeRenamed_def Let_def)

lemma strict_descendant_neq: "strict_descendant p d \<Longrightarrow> d \<noteq> p"
  by (auto simp: strict_descendant_def)

lemma Rename_success:
  assumes "Rename env s n req newDir = (None, s')"
  shows "s' = nodeRenamed
                (moveAllxattrs
                   (s\<lparr>calls := calls s @
                        [CRename (join env (getRealPath s n) (OldName req))
                                 (join env (getRealPath s newDir) (NewName req))]\<rparr>)
                   (join env (getRealPath s n) (OldName req))
                   (join env (getRealPath s newDir) (NewName req)))
                (join env (getRealPath s n) (OldName req))
                (join env (getRealPath s newDir) (NewName req))"
  using assms by (simp add: Rename_def sys_def Let_def split: option.splits)

lemma bucket_calls_update [simp]: "bucket (s\<lparr>calls := c\<rparr>) p = bucket s p"
  by (simp add: bucket_def)

lemma reachable_calls: "reachable s \<Longrightarrow> reachable (s\<lparr>calls := c\<rparr>)"
  by (erule reachable.frame) simp_all

lemma reachable_Lookup: "reachable s \<Longrightarrow> reachable (snd (Lookup env s n name))"
proof -
  assume r: "reachable s"
  have a: "reachable (newNode (snd (alloc (s\<lparr>calls := c\<rparr>) nd)) (nobjs s))" for c nd
    by (rule reachable.newNode [OF reachable_alloc [OF reachable_calls [OF r]]])
       (simp add: alloc_def)
  show ?thesis
    using r reachable_calls [OF r] a
    by (auto simp: Lookup_def sys_stat_def alloc_def Let_def split: sum.splits)
qed

lemma reachable_Setxattr: "reachable s \<Longrightarrow> reachable (snd (Setxattr s n name buf))"
  by (erule reachable.frame) (simp_all add: Setxattr_def Let_def)

lemma reachable_moveAllxattrs: "reachable s \<Longrightarrow> reachable (moveAllxattrs s a b)"
  by (erule reachable.frame) simp_all

lemma reachable_Rename: "reachable s \<Longrightarrow> reachable (snd (Rename env s n req newDir))"
  by (auto simp: Rename_def sys_def Let_def split: option.splits
      intro!: reachable.nodeRenamed reachable_moveAllxattrs reachable_calls)

lemma reachable_Remove: "reachable s \<Longrightarrow> reachable (snd (Remove env s n name))"
  by (auto simp: Remove_def sys_def Let_def split: option.splits
      intro!: reachable_moveAllxattrs reachable_calls)

lemma reachable_Forget: "reachable s \<Longrightarrow> reachable (Forget s n)"
  by (simp add: Forget_def reachable.forgetNode)

lemma reachable_Mkdir: "reachable s \<Longrightarrow> reachable (snd (Mkdir env s n name m))"
proof -
  assume r: "reachable s"
  have a: "reachable (newNode (snd (alloc (s\<lparr>calls := c\<rparr>) nd)) (nobjs s))" for c nd
    by (rule reachable.newNode [OF reachable_alloc [OF reachable_calls [OF r]]])
       (simp add: alloc_def)
  show ?thesis
    using reachable_calls [OF r] a
    by (auto simp: Mkdir_def sys_def alloc_def Let_def split: option.splits)
qed

lemma reachable_Removexattr: "reachable s \<Longrightarrow> reachable (snd (Removexattr s n name))"
  by (erule reachable.frame) (simp_all add: Removexattr_def Let_def split: option.splits)

lemma reachable_handles:
  "reachable s \<Longrightarrow> reachable (rememberHandle n h s)"
  "reachable s \<Longrightarrow> reachable (forgetHandle n h s)"
  by (erule reachable.frame; simp add: rememberHandle_def forgetHandle_def)+

lemma reachable_tree3: "reachable tree3"
  unfolding tree3_def tree2_def tree1_def tree0_def
  by (intro reachable_Setxattr reachable_Lookup reachable_Root reachable.boot)

lemma IsDir_dir_info [simp]: "IsDir (fi_mode dir_info)"
  by (simp add: IsDir_def ModeDir_def dir_info_def)

lemma not_IsDir_plain_file [simp]: "\<not> IsDir (fi_mode plain_file)"
  by (simp add: IsDir_def ModeDir_def plain_file_def)

lemmas tree_defs =
  tree3_def tree2_def tree1_def tree0_def Root_def Lookup_def Setxattr_def alloc_def newNode_def
  set_nodes_def bucket_def getRealPath_def boot_def NewFS_def sys_stat_def env_tree_def
  env_ok_def Let_def

lemma tree3_paths:
  "getRealPath tree3 0 = ''.''" "getRealPath tree3 1 = ''d''" "getRealPath tree3 2 = ''d/f''"
  "realPath (objs tree3 0) = ''.''" "realPath (objs tree3 1) = ''d''"
  "realPath (objs tree3 2) = ''d/f''"
  by (simp_all add: tree_defs)

lemma tree3_nodes:
  "nodes (fsys tree3) = [''.'' \<mapsto> [0], ''d'' \<mapsto> [1], ''d/f'' \<mapsto> [2]]"
  by (simp add: tree_defs numeral_2_eq_2)

lemma tree3_xattrs:
  "xattrs (fsys tree3) = [''d/f'' \<mapsto> fmupd ''user.k'' [1] fmempty]"
  by (simp add: tree_defs)

lemma tree3_calls: "exec env_tree (calls tree3) c = None" "join env_tree ''.'' ''d'' = ''d''"
  "join env_tree ''.'' ''e'' = ''e''"
  by (simp_all add: env_tree_def env_ok_def)

lemma Rename_migrates:
  assumes "Rename env s n req newDir = (None, s')"
    and "oldPath = join env (getRealPath s n) (OldName req)"
    and "newPath = join env (getRealPath s newDir) (NewName req)"
    and "oldPath \<noteq> newPath" and "newPath \<noteq> []"
    and "xattrs (fsys s) oldPath = Some x"
  shows "(\<forall>m \<in> set (bucket s oldPath). getRealPath s' m = newPath) \<and>
         xattrs (fsys s') newPath = Some x \<and>
         xattrs (fsys s') oldPath = None"
proof -
  have s': "s' = nodeRenamed (moveAllxattrs (s\<lparr>calls := calls s @ [CRename oldPath newPath]\<rparr>)
                  oldPath newPath) oldPath newPath"
    using Rename_success [OF assms(1)] assms(2,3) by simp
  show ?thesis
    using assms(4-6)
    by (simp add: s' getRealPath_def realPath_nodeRenamed xattrs_moveAllxattrs)
qed

lemma Getxattr_by_path:
  "inMemoryXattr (fsys s) \<Longrightarrow>
   Getxattr s m name =
     (case xattrs (fsys s) (getRealPath s m) of
        None \<Rightarrow> Inl ENODATA
      | Some x \<Rightarrow> (case fmlookup x name of Some v \<Rightarrow> Inr v | None \<Rightarrow> Inl ENODATA))"
  by (simp add: Getxattr_def)

lemma Rename_keeps_flag:
  "inMemoryXattr (fsys (snd (Rename env s n req newDir))) = inMemoryXattr (fsys s)"
  by (simp add: Rename_def sys_def Let_def split: option.splits)

lemma Rename_migrates_getxattr:
  assumes "Rename env s n req newDir = (None, s')"
    and "oldPath = join env (getRealPath s n) (OldName req)"
    and "newPath = join env (getRealPath s newDir) (NewName req)"
    and "oldPath \<noteq> newPath" and "newPath \<noteq> []"
    and "xattrs (fsys s) oldPath = Some x"
    and "inMemoryXattr (fsys s)"
    and "m \<in> set (bucket s oldPath)"
    and "getRealPath s' k = oldPath"
  shows "getRealPath s' m = newPath \<and>
         Getxattr s' m name = (case fmlookup x name of Some v \<Rightarrow> Inr v | None \<Rightarrow> Inl ENODATA) \<and>
         Getxattr s' k name = Inl ENODATA"
proof -
  have f: "inMemoryXattr (fsys s')"
    using Rename_keeps_flag [of env s n req newDir] assms(1,7) by simp
  have mig: "getRealPath s' m = newPath" "xattrs (fsys s') newPath = Some x"
    "xattrs (fsys s') oldPath = None"
    using Rename_migrates [OF assms(1-6)] assms(8) by auto
  show ?thesis
    using mig assms(9) by (simp add: Getxattr_by_path [OF f])
qed

lemmas alias_defs =
  alias4_def alias3_def alias2_def alias1_def tree0_def Root_def Lookup_def Setxattr_def
  alloc_def newNode_def set_nodes_def bucket_def getRealPath_def boot_def NewFS_def
  sys_stat_def env_ok_def Let_def

lemma alias4_paths:
  "realPath (objs alias4 0) = ''.''" "realPath (objs alias4 1) = ''a''"
  "realPath (objs alias4 2) = ''a''" "realPath (objs alias4 3) = ''b''"
  "realPath (objs alias4 (Suc 0)) = ''a''"
  by (simp_all add: alias_defs)

lemma alias4_nodes:
  "nodes (fsys alias4) = [''.'' \<mapsto> [0], ''a'' \<mapsto> [1, 2], ''b'' \<mapsto> [3]]"
  by (simp add: alias_defs numeral_2_eq_2 numeral_3_eq_3)

lemma alias4_xattrs:
  "xattrs (fsys alias4) = [''b'' \<mapsto> fmupd ''user.k'' [1] fmempty]"
  "inMemoryXattr (fsys alias4)"
  by (simp_all add: alias_defs)

lemma alias4_rename:
  "Rename env_ok alias4 0 rename_a_b 0 =
     (None, nodeRenamed (moveAllxattrs (alias4\<lparr>calls := calls alias4 @ [CRename ''a'' ''b'']\<rparr>)
                           ''a'' ''b'') ''a'' ''b'')"
  by (simp add: Rename_def sys_def Let_def getRealPath_def alias4_paths rename_a_b_def env_ok_def)

lemma Rename_onto_itself_drops_bookkeeping:
  "Getxattr demo 1 ''user.a'' = Inr [1] \<and>
   fst (Rename env_ok demo 0 rename_a_a 0) = None \<and>
   Getxattr (snd (Rename env_ok demo 0 rename_a_a 0)) 1 ''user.a'' = Inl ENODATA \<and>
   bucket (snd (Rename env_ok demo 0 rename_a_a 0)) ''a'' = []"
  by (simp add: Rename_def sys_def Let_def getRealPath_def rename_a_a_def env_ok_def
      Getxattr_def realPath_nodeRenamed xattrs_moveAllxattrs bucket_nodeRenamed
      demo_def demo_node_def demo_attrs_def)

subsection \<open>The configuration is never written\<close>

lemma config_registry:
  "latency (fsys (newNode s n)) = latency (fsys s) \<and>
   inMemoryXattr (fsys (newNode s n)) = inMemoryXattr (fsys s) \<and>
   latency (fsys (nodeRenamed s a b)) = latency (fsys s) \<and>
   inMemoryXattr (fsys (nodeRenamed s a b)) = inMemoryXattr (fsys s) \<and>
   latency (fsys (forgetNode s n)) = latency (fsys s) \<and>
   inMemoryXattr (fsys (forgetNode s n)) = inMemoryXattr (fsys s) \<and>
   latency (fsys (moveAllxattrs s a b)) = latency (fsys s) \<and>
   inMemoryXattr (fsys (moveAllxattrs s a b)) = inMemoryXattr (fsys s)"
  by (simp add: newNode_def nodeRenamed_def forgetNode_def moveAllxattrs_def set_nodes_def
      Let_def split: option.splits)

lemma config_xattr_methods:
  "latency (fsys (snd (Setxattr s n name buf))) = latency (fsys s) \<and>
   inMemoryXattr (fsys (snd (Setxattr s n name buf))) = inMemoryXattr (fsys s) \<and>
   latency (fsys (snd (Removexattr s n name))) = latency (fsys s) \<and>
   inMemoryXattr (fsys (snd (Removexattr s n name))) = inMemoryXattr (fsys s)"
  by (simp add: Setxattr_def Removexattr_def Let_def split: option.splits)

subsection \<open>Setattr\<close>

lemma on_ok_None [simp]: "on_ok (None, s) k = k s"
  by (simp add: on_ok_def)

lemma Setattr_times_only:
  assumes "Valid req \<subseteq> {VMtime, VAtime, VHandle}"
  shows "Setattr env s n req =
           on_ok (sys env (CSetattrPlatformSpecific req) s)
             (\<lambda>s6. let (r, s7) = sys_stat env (getRealPath s6 n) s6
                    in case r of
                         Inl e \<Rightarrow> (Inl (translateErr e), s7)
                       | Inr fi \<Rightarrow> (Inr fi, s7))"
proof -
  have "VSize \<notin> Valid req" "VMode \<notin> Valid req" "VUid \<notin> Valid req" "VGid \<notin> Valid req"
    using assms by auto
  then show ?thesis by (simp add: Setattr_def Let_def)
qed

lemma Setattr_times_only_calls:
  assumes "Valid req \<subseteq> {VMtime, VAtime, VHandle}"
    and "exec env (calls s) (CSetattrPlatformSpecific req) = None"
  shows "calls (snd (Setattr env s n req)) =
           calls s @ [CSetattrPlatformSpecific req, CStat (getRealPath s n)]"
  using assms(2)
  by (simp add: Setattr_times_only [OF assms(1)] on_ok_def sys_def sys_stat_def getRealPath_def
      Let_def split: sum.splits prod.splits)

section \<open>Claims\<close>

subsection \<open>C1\<close>

text \<open>
  C1, at an input where it fails. Two aliases of \<open>a\<close> from two lookups, no attribute
  stored under \<open>a\<close>, one attribute stored under \<open>b\<close>. The rename of \<open>a\<close> to \<open>b\<close> succeeds
  (it replaces \<open>b\<close>) and both aliases report \<open>b\<close>, but a getxattr against \<open>b\<close> then
  returns the attribute of the replaced file, not the empty set stored under \<open>a\<close>:
  \<^verbatim>\<open>moveAllxattrs\<close> does nothing when the source has no attribute map. Where the source
  has one and the two paths differ, \<open>Rename_migrates_getxattr\<close> above gives what C1
  says.
\<close>

theorem C1_rename_over_existing_path_keeps_its_xattrs:
  "bucket alias4 ''a'' = [1, 2] \<and>
   xattrs (fsys alias4) ''a'' = None \<and>
   Getxattr alias4 1 ''user.k'' = Inl ENODATA \<and>
   Getxattr alias4 3 ''user.k'' = Inr [1] \<and>
   fst (Rename env_ok alias4 0 rename_a_b 0) = None \<and>
   getRealPath (snd (Rename env_ok alias4 0 rename_a_b 0)) 1 = ''b'' \<and>
   getRealPath (snd (Rename env_ok alias4 0 rename_a_b 0)) 2 = ''b'' \<and>
   Getxattr (snd (Rename env_ok alias4 0 rename_a_b 0)) 1 ''user.k'' = Inr [1]"
  by (simp add: alias4_rename Getxattr_def getRealPath_def realPath_nodeRenamed
      xattrs_moveAllxattrs bucket_def alias4_nodes alias4_xattrs alias4_paths)

subsection \<open>C2\<close>

text \<open>
  C2. In every reachable state of the registry, after any of the three registry functions
  (\<^verbatim>\<open>newNode\<close>, \<^verbatim>\<open>nodeRenamed\<close>, \<^verbatim>\<open>forgetNode\<close>, on any arguments) has run, every node in
  the registry is in the bucket keyed by its own \<^verbatim>\<open>realPath\<close>, and no node is under two
  different keys.
\<close>

theorem C2_registry_consistent_after_each_operation:
  assumes "reachable s"
  shows "registry_consistent (newNode s n) \<and>
         registry_consistent (nodeRenamed s oldPath newPath) \<and>
         registry_consistent (forgetNode s n)"
proof -
  have inv: "registry_inv s" using assms by (rule reachable_registry_inv)
  show ?thesis
    by (intro conjI registry_inv_consistent
        registry_inv_newNode registry_inv_nodeRenamed registry_inv_forgetNode inv)
qed

theorem C2_witness:
  "reachable (snd (Root (boot ((NewFS 0)\<lparr>inMemoryXattr := True\<rparr>)))) \<and>
   registry_consistent (newNode (snd (Root (boot ((NewFS 0)\<lparr>inMemoryXattr := True\<rparr>)))) 0) \<and>
   registry_consistent
     (nodeRenamed (snd (Root (boot ((NewFS 0)\<lparr>inMemoryXattr := True\<rparr>)))) ''.'' ''d'') \<and>
   registry_consistent (forgetNode (snd (Root (boot ((NewFS 0)\<lparr>inMemoryXattr := True\<rparr>)))) 0)"
proof -
  have r: "reachable (snd (Root (boot ((NewFS 0)\<lparr>inMemoryXattr := True\<rparr>))))"
    by (rule reachable_Root [OF reachable.boot])
  show ?thesis
    using r C2_registry_consistent_after_each_operation [OF r, of 0 "''.''" "''d''"]
    by simp
qed

subsection \<open>C3\<close>

text \<open>
  C3. \<^verbatim>\<open>Node.Rename\<close> makes one call on the underlying filesystem, the rename, and
  returns its error untranslated. When that call fails, the state after the method is
  the state before it but for the record of the call: neither the xattr store nor the
  registry nor any node has changed. Whenever the \<^verbatim>\<open>FS\<close> or a node differs afterwards,
  the rename had been made and had returned without error.
\<close>

theorem C3_failed_rename_migrates_nothing:
  assumes "oldPath = join env (getRealPath s n) (OldName req)"
    and "newPath = join env (getRealPath s newDir) (NewName req)"
  shows "fst (Rename env s n req newDir) =
           map_option Raw (exec env (calls s) (CRename oldPath newPath)) \<and>
         calls (snd (Rename env s n req newDir)) = calls s @ [CRename oldPath newPath] \<and>
         (exec env (calls s) (CRename oldPath newPath) \<noteq> None \<longrightarrow>
            snd (Rename env s n req newDir) = s\<lparr>calls := calls s @ [CRename oldPath newPath]\<rparr>) \<and>
         (fsys (snd (Rename env s n req newDir)) \<noteq> fsys s \<or>
          objs (snd (Rename env s n req newDir)) \<noteq> objs s \<longrightarrow>
            exec env (calls s) (CRename oldPath newPath) = None)"
  using assms by (auto simp: Rename_def sys_def Let_def split: option.splits)

theorem C3_witness:
  "''d'' = join env_rename_fails (getRealPath tree3 0) (OldName rename_d_e) \<and>
   ''e'' = join env_rename_fails (getRealPath tree3 0) (NewName rename_d_e) \<and>
   exec env_rename_fails (calls tree3) (CRename ''d'' ''e'') = Some (OsErr Permission 13) \<and>
   fst (Rename env_rename_fails tree3 0 rename_d_e 0) = Some (Raw (OsErr Permission 13)) \<and>
   snd (Rename env_rename_fails tree3 0 rename_d_e 0) =
     tree3\<lparr>calls := calls tree3 @ [CRename ''d'' ''e'']\<rparr>"
proof -
  have h1: "''d'' = join env_rename_fails (getRealPath tree3 0) (OldName rename_d_e)"
    by (simp add: env_rename_fails_def env_tree_def env_ok_def tree3_paths rename_d_e_def)
  have h2: "''e'' = join env_rename_fails (getRealPath tree3 0) (NewName rename_d_e)"
    by (simp add: env_rename_fails_def env_tree_def env_ok_def tree3_paths rename_d_e_def)
  have e: "exec env_rename_fails (calls tree3) (CRename ''d'' ''e'') = Some (OsErr Permission 13)"
    by (simp add: env_rename_fails_def)
  show ?thesis
    using h1 h2 e C3_failed_rename_migrates_nothing [OF h1 h2] by simp
qed

subsection \<open>C4\<close>

text \<open>
  C4, at an input where it fails. A request whose valid bits ask for a new modification
  time, alone or with an access time: \<^verbatim>\<open>Setattr\<close> fills \<^verbatim>\<open>tvs\<close> and drops it. The only
  calls it makes are \<^verbatim>\<open>setattrPlatformSpecific\<close>, which is handed the request and not
  \<^verbatim>\<open>tvs\<close>, and the final stat; no call of its own sets a time.
\<close>

theorem C4_setattr_drops_mtime:
  "VMtime \<in> Valid req_mtime \<and>
   Setattr env_ok demo 1 req_mtime =
     (Inr plain_file, demo\<lparr>calls := [CSetattrPlatformSpecific req_mtime, CStat ''a'']\<rparr>) \<and>
   Setattr env_ok demo 1 (req_mtime\<lparr>Valid := {VMtime, VAtime}, Atime := 1600000000\<rparr>) =
     (Inr plain_file,
      demo\<lparr>calls := [CSetattrPlatformSpecific
                         (req_mtime\<lparr>Valid := {VMtime, VAtime}, Atime := 1600000000\<rparr>),
                       CStat ''a'']\<rparr>)"
  by (simp add: Setattr_times_only req_mtime_def on_ok_def sys_def sys_stat_def env_ok_def
      getRealPath_def demo_def demo_node_def Let_def)

subsection \<open>C5\<close>

text \<open>
  C5, at an input where it fails. \<^verbatim>\<open>NewFS\<close> takes the latency and nothing else: whatever
  the argument, the flag the xattr methods read is off in the \<^verbatim>\<open>FS\<close> it builds, and each of
  the four methods answers \<^verbatim>\<open>ENOTSUP\<close>. Nothing writes either value afterwards
  (\<open>config_registry\<close>, \<open>config_xattr_methods\<close>).
\<close>

theorem C5_newfs_leaves_emulation_off:
  "inMemoryXattr (NewFS l) = False \<and>
   latency (NewFS l) = l \<and>
   Getxattr (snd (Root (boot (NewFS l)))) 0 name = Inl ENOTSUP \<and>
   Listxattr (snd (Root (boot (NewFS l)))) 0 pos sz = Inl ENOTSUP \<and>
   Setxattr (snd (Root (boot (NewFS l)))) 0 name buf = (Some ENOTSUP, snd (Root (boot (NewFS l)))) \<and>
   Removexattr (snd (Root (boot (NewFS l)))) 0 name = (Some ENOTSUP, snd (Root (boot (NewFS l))))"
  by (simp add: NewFS_def Getxattr_def Listxattr_def Setxattr_def Removexattr_def Root_def
      alloc_def newNode_def set_nodes_def boot_def Let_def)

subsection \<open>C6\<close>




subsection \<open>C7\<close>

text \<open>
  C7. With emulation on and an attribute map stored for the node's path, \<^verbatim>\<open>Listxattr\<close>
  answers every offset and count with names from one fixed list, the keys of the map in
  strictly ascending order: the names from the offset on, cut to the count, and all the
  remaining names when the count is zero or larger than what remains. The answer is empty
  once the offset reaches the number of names. A client that advances its offset by the
  number of names it got reads a prefix of that list, never a name twice, and the whole
  list once it has made as many calls as there are names (the offset is a \<^verbatim>\<open>uint32\<close>, so
  the list has fewer than \<open>2 ^ 32\<close> names).
\<close>

theorem C7_listxattr_pagination:
  assumes "inMemoryXattr (fsys s)"
    and "xattrs (fsys s) (getRealPath s n) = Some x"
  shows "sorted (sorted_names x) \<and> distinct (sorted_names x) \<and>
         set (sorted_names x) = fset (fmdom x) \<and>
         Listxattr s n pos sz =
           Inr (take (if unat sz = 0 \<or> length (sorted_names x) - unat pos < unat sz
                      then length (sorted_names x) - unat pos else unat sz)
                     (drop (unat pos) (sorted_names x))) \<and>
         (length (sorted_names x) \<le> unat pos \<longrightarrow> Listxattr s n pos sz = Inr []) \<and>
         (length (sorted_names x) < 2 ^ 32 \<longrightarrow>
            (\<exists>j. list_pages s n 0 cs = take j (sorted_names x)) \<and>
            (length (sorted_names x) \<le> length cs \<longrightarrow> list_pages s n 0 cs = sorted_names x))"
proof -
  have l: "Listxattr s n pos sz = Inr (page (sorted_names x) pos sz)"
    using assms by (simp add: Listxattr_def)
  have p: "list_pages s n 0 cs = pages (sorted_names x) 0 cs"
    using assms by (rule list_pages_pages)
  have a: "length (sorted_names x) < 2 ^ 32 \<Longrightarrow>
             \<exists>j. pages (sorted_names x) 0 cs = take j (sorted_names x)"
    using pages_prefix [of "sorted_names x" 0 cs] by simp
  have b: "length (sorted_names x) < 2 ^ 32 \<Longrightarrow> length (sorted_names x) \<le> length cs \<Longrightarrow>
             pages (sorted_names x) 0 cs = sorted_names x"
    using pages_all [of "sorted_names x" 0 cs] by simp
  show ?thesis
    using sorted_names_props [of x] a b
    by (simp only: l p page_limits page_past_end) simp
qed

lemma sorted_names_demo: "sorted_names demo_attrs = [''user.a'', ''user.b'', ''user.c'']"
  unfolding sorted_names_def demo_attrs_def by code_simp

theorem C7_witness:
  "inMemoryXattr (fsys demo) \<and>
   xattrs (fsys demo) (getRealPath demo 1) = Some demo_attrs \<and>
   Listxattr demo 1 1 1 = Inr [''user.b''] \<and>
   Listxattr demo 1 1 0 = Inr [''user.b'', ''user.c''] \<and>
   Listxattr demo 1 3 5 = Inr [] \<and>
   list_pages demo 1 0 [2, 7, 1] = [''user.a'', ''user.b'', ''user.c'']"
proof -
  have h1: "inMemoryXattr (fsys demo)" by (simp add: demo_def)
  have h2: "xattrs (fsys demo) (getRealPath demo 1) = Some demo_attrs"
    by (simp add: demo_def getRealPath_def demo_node_def)
  show ?thesis
    using h1 h2
      C7_listxattr_pagination [OF h1 h2, of 1 1 "[2, 7, 1]"]
      C7_listxattr_pagination [OF h1 h2, of 1 0 "[2, 7, 1]"]
      C7_listxattr_pagination [OF h1 h2, of 3 5 "[2, 7, 1]"]
    by (simp add: sorted_names_demo)
qed

subsection \<open>C8\<close>

text \<open>
  C8. When the stat of the node's path succeeds, \<^verbatim>\<open>Access\<close> succeeds exactly when every
  requested bit is set in the mode shifted right by six, where the owner's permission
  bits then sit, and fails with \<^verbatim>\<open>EPERM\<close> (permission denied) otherwise. For a mask
  within the three permission bits read, write and execute this is the comparison with
  the owner's three bits alone.
\<close>

theorem C8_access_owner_bits:
  assumes "stat env (calls s) (getRealPath s n) = Inr fi"
  shows "(fst (Access env s n m) = None \<longleftrightarrow> m AND drop_bit 6 (fi_mode fi) = m) \<and>
         (fst (Access env s n m) = None \<longleftrightarrow> (\<forall>i. bit m i \<longrightarrow> bit (fi_mode fi) (i + 6))) \<and>
         (fst (Access env s n m) = None \<or> fst (Access env s n m) = Some EPERM) \<and>
         (m AND 7 = m \<longrightarrow>
            (fst (Access env s n m) = None \<longleftrightarrow> m AND (drop_bit 6 (fi_mode fi) AND 7) = m))"
proof -
  have a: "fst (Access env s n m) =
             (if m AND drop_bit 6 (fi_mode fi) \<noteq> m then Some EPERM else None)"
    using assms by (simp add: Access_def sys_stat_def)
  have b: "(m AND drop_bit 6 (fi_mode fi) = m) \<longleftrightarrow> (\<forall>i. bit m i \<longrightarrow> bit (fi_mode fi) (i + 6))"
    by (simp add: and_subset_bits bit_drop_bit_eq add.commute)
  show ?thesis
    using and_low_bits [of m "drop_bit 6 (fi_mode fi)"] b by (simp add: a)
qed

theorem C8_witness:
  "stat env_ok (calls demo) (getRealPath demo 1) = Inr plain_file \<and>
   fst (Access env_ok demo 1 4) = None \<and>
   fst (Access env_ok demo 1 6) = None \<and>
   fst (Access env_ok demo 1 1) = Some EPERM"
proof -
  have h: "stat env_ok (calls demo) (getRealPath demo 1) = Inr plain_file"
    by (simp add: env_ok_def)
  show ?thesis
    using h C8_access_owner_bits [OF h, of 4] C8_access_owner_bits [OF h, of 6]
      C8_access_owner_bits [OF h, of 1]
    by (auto simp: plain_file_def)
qed

subsection \<open>C9\<close>




subsection \<open>C10\<close>

text \<open>
  C10. A successful \<^verbatim>\<open>Rename\<close> from \<open>oldPath\<close> to \<open>newPath\<close> leaves every path strictly
  below \<open>oldPath\<close> as it was: its registry bucket is the same list, the nodes in it keep
  their path field (the old descendant path, equal to their key), and its xattr entry
  is the same. Only the bucket and the xattr entry keyed by \<open>oldPath\<close> itself move. The
  destination \<open>newPath\<close> is not below \<open>oldPath\<close>: the underlying filesystem does not move
  a directory into itself.
\<close>

theorem C10_rename_leaves_descendants:
  assumes "reachable s"
    and "Rename env s n req newDir = (None, s')"
    and "oldPath = join env (getRealPath s n) (OldName req)"
    and "newPath = join env (getRealPath s newDir) (NewName req)"
    and "strict_descendant oldPath d"
    and "\<not> strict_descendant oldPath newPath"
  shows "bucket s' d = bucket s d \<and>
         (\<forall>m \<in> set (bucket s d). getRealPath s' m = d \<and> getRealPath s m = d) \<and>
         xattrs (fsys s') d = xattrs (fsys s) d"
proof -
  have inv: "registry_inv s" using assms(1) by (rule reachable_registry_inv)
  have d1: "d \<noteq> oldPath" using assms(5) by (rule strict_descendant_neq)
  have d2: "d \<noteq> newPath" using assms(5,6) by auto
  have s': "s' = nodeRenamed (moveAllxattrs (s\<lparr>calls := calls s @ [CRename oldPath newPath]\<rparr>)
                  oldPath newPath) oldPath newPath"
    using Rename_success [OF assms(2)] assms(3,4) by simp
  have b: "bucket s' d = bucket s d"
    using d1 d2 by (simp add: s' bucket_nodeRenamed)
  have x: "xattrs (fsys s') d = xattrs (fsys s) d"
    using d1 d2 by (simp add: s' xattrs_moveAllxattrs split: option.splits)
  have p: "getRealPath s' m = d \<and> getRealPath s m = d" if m: "m \<in> set (bucket s d)" for m
  proof -
    have r: "realPath (objs s m) = d" using inv m by (simp add: registry_inv_def)
    have "m \<notin> set (bucket s oldPath)" "m \<notin> set (bucket s newPath)"
      using inv r d1 d2 by (auto simp: registry_inv_def)
    then show ?thesis
      using r by (simp add: s' getRealPath_def realPath_nodeRenamed)
  qed
  show ?thesis using b x p by blast
qed

theorem C10_witness:
  "reachable tree3 \<and>
   fst (Rename env_tree tree3 0 rename_d_e 0) = None \<and>
   strict_descendant ''d'' ''d/f'' \<and>
   \<not> strict_descendant ''d'' ''e'' \<and>
   bucket tree3 ''d/f'' = [2] \<and>
   bucket (snd (Rename env_tree tree3 0 rename_d_e 0)) ''d/f'' = [2] \<and>
   getRealPath (snd (Rename env_tree tree3 0 rename_d_e 0)) 2 = ''d/f'' \<and>
   getRealPath (snd (Rename env_tree tree3 0 rename_d_e 0)) 1 = ''e'' \<and>
   xattrs (fsys (snd (Rename env_tree tree3 0 rename_d_e 0))) ''d/f'' =
     Some (fmupd ''user.k'' [1] fmempty)"
proof -
  let ?r = "Rename env_tree tree3 0 rename_d_e 0"
  have ok: "fst ?r = None"
    by (simp add: Rename_def sys_def tree3_calls tree3_paths rename_d_e_def Let_def)
  have h2: "?r = (None, snd ?r)" using ok by (simp add: prod_eq_iff)
  have h3: "''d'' = join env_tree (getRealPath tree3 0) (OldName rename_d_e)"
    by (simp add: tree3_calls tree3_paths rename_d_e_def)
  have h4: "''e'' = join env_tree (getRealPath tree3 0) (NewName rename_d_e)"
    by (simp add: tree3_calls tree3_paths rename_d_e_def)
  have h5: "strict_descendant ''d'' ''d/f''" by (simp add: strict_descendant_def)
  have h6: "\<not> strict_descendant ''d'' ''e''" by (simp add: strict_descendant_def)
  have b: "bucket tree3 ''d/f'' = [2]" by (simp add: bucket_def tree3_nodes)
  have e: "getRealPath (snd ?r) 1 = ''e''"
    by (simp add: Rename_def sys_def tree3_calls tree3_paths rename_d_e_def Let_def
        getRealPath_def realPath_nodeRenamed bucket_def tree3_nodes)
  show ?thesis
    using reachable_tree3 ok h5 h6 b e
      C10_rename_leaves_descendants [OF reachable_tree3 h2 h3 h4 h5 h6]
    by (simp add: tree3_xattrs)
qed

end
